theory Spec2Isabelle
  imports Main "HOL-Library.Word" "HOL-Library.Log_Nat"
begin

section \<open>Go values the exporter handles\<close>

subsection \<open>float64\<close>

text \<open>
  A \<open>float64\<close> is an IEEE 754 binary64 value: a finite value (a rational; \<open>Fin 0\<close> is
  \<open>+0\<close>), the negative zero, an infinity or a NaN. The arithmetic rounds the exact result
  to the nearest representable value, ties to even, as the hardware does.
\<close>

datatype float64 = Fin rat | NegZero | PInf | NInf | NaN

text \<open>\<open>ilog2 r\<close> is the binary exponent of a positive \<open>r\<close>: \<open>2 ^ ilog2 r \<le> r < 2 ^ (ilog2 r + 1)\<close>.\<close>

definition ilog2 :: "rat \<Rightarrow> int" where
  "ilog2 r = (case quotient_of r of (a, b) \<Rightarrow>
     (let e = bitlen a - bitlen b in if 2 powi e \<le> r then e else e - 1))"

definition round_half_even :: "rat \<Rightarrow> int" where
  "round_half_even m = (let n = \<lfloor>m\<rfloor>; d = m - of_int n in
     if d < 1 / 2 then n else if 1 / 2 < d then n + 1 else if even n then n else n + 1)"

text \<open>
  Rounding a real value to binary64: 53 significant bits for a normal value, multiples of
  \<open>2 ^ - 1074\<close> below \<open>2 ^ - 1022\<close>, an infinity from \<open>2 ^ 1024\<close> on, a signed zero when the
  value rounds to nothing.
\<close>

definition round_f64 :: "rat \<Rightarrow> float64" where
  "round_f64 r = (if r = 0 then Fin 0 else
     let a = \<bar>r\<bar>; e = max (ilog2 a) (- 1022); q = e - 52;
         n = round_half_even (a / 2 powi q); v = of_int n * 2 powi q
     in if 2 powi 1024 \<le> v then (if r < 0 then NInf else PInf)
        else if n = 0 then (if r < 0 then NegZero else Fin 0)
        else Fin (if r < 0 then - v else v))"

text \<open>A finite value is a \<open>float64\<close> when rounding leaves it as it is.\<close>

fun is_float64 :: "float64 \<Rightarrow> bool" where
  "is_float64 (Fin r) = (round_f64 r = Fin r)"
| "is_float64 x = True"

fun f64_is_zero :: "float64 \<Rightarrow> bool" where
  "f64_is_zero (Fin r) = (r = 0)"
| "f64_is_zero NegZero = True"
| "f64_is_zero x = False"

fun f64_is_inf :: "float64 \<Rightarrow> bool" where
  "f64_is_inf PInf = True"
| "f64_is_inf NInf = True"
| "f64_is_inf x = False"

fun f64_signbit :: "float64 \<Rightarrow> bool" where
  "f64_signbit (Fin r) = (r < 0)"
| "f64_signbit NegZero = True"
| "f64_signbit NInf = True"
| "f64_signbit x = False"

text \<open>Go's \<open>==\<close> and \<open>!=\<close> on floats: a NaN differs from everything, the two zeros are equal.\<close>

fun f64_eq :: "float64 \<Rightarrow> float64 \<Rightarrow> bool" where
  "f64_eq NaN y = False"
| "f64_eq x NaN = False"
| "f64_eq x y = (if f64_is_zero x then f64_is_zero y else x = y)"

definition f64_ne :: "float64 \<Rightarrow> float64 \<Rightarrow> bool" where
  "f64_ne x y = (\<not> f64_eq x y)"

text \<open>Go's \<open>/\<close> on floats never panics: a division by zero gives an infinity or a NaN.\<close>

definition f64_div :: "float64 \<Rightarrow> float64 \<Rightarrow> float64" where
  "f64_div x y =
     (let neg = (f64_signbit x \<noteq> f64_signbit y) in
      if x = NaN \<or> y = NaN then NaN
      else if f64_is_inf x then (if f64_is_inf y then NaN else if neg then NInf else PInf)
      else if f64_is_inf y then (if neg then NegZero else Fin 0)
      else if f64_is_zero y then (if f64_is_zero x then NaN else if neg then NInf else PInf)
      else if f64_is_zero x then (if neg then NegZero else Fin 0)
      else (case (x, y) of (Fin a, Fin b) \<Rightarrow> round_f64 (a / b) | _ \<Rightarrow> NaN))"

text \<open>The conversion \<open>float64(d)\<close> of an \<open>int64\<close>.\<close>

definition float64_of_int64 :: "int \<Rightarrow> float64" where
  "float64_of_int64 d = round_f64 (of_int d)"

text \<open>
  The conversion \<open>uint(x)\<close> of a float, \<open>uint\<close> being 64 bits wide: the fraction is
  discarded. Where the truncated value is no \<open>uint\<close> (a negative number, \<open>2 ^ 64\<close> or
  more, an infinity, a NaN) the conversion succeeds with a value that Go leaves to the
  implementation: the parameter \<open>impl\<close>.
\<close>

definition trunc :: "rat \<Rightarrow> int" where
  "trunc r = (if 0 \<le> r then \<lfloor>r\<rfloor> else - \<lfloor>- r\<rfloor>)"

definition uint_of_float64 :: "(float64 \<Rightarrow> 64 word) \<Rightarrow> float64 \<Rightarrow> 64 word" where
  "uint_of_float64 impl x = (case x of
       Fin r \<Rightarrow> if - 1 < r \<and> r < 2 ^ 64 then word_of_int (trunc r) else impl x
     | NegZero \<Rightarrow> 0
     | _ \<Rightarrow> impl x)"

subsection \<open>time.Time and time.Duration\<close>

text \<open>
  A \<open>time.Time\<close> is read as its instant: the nanoseconds since January 1 of year 1, UTC,
  the zero value of the type. A \<open>time.Duration\<close> is an \<open>int64\<close> count of nanoseconds;
  \<open>Sub\<close> returns the largest or the smallest duration when the difference does not fit.
  Monotonic clock readings and locations are not part of the model.
\<close>

type_synonym time = int

definition IsZero :: "time \<Rightarrow> bool" where
  "IsZero t = (t = 0)"

definition maxDuration :: int where
  "maxDuration = 2 ^ 63 - 1"

definition minDuration :: int where
  "minDuration = - (2 ^ 63)"

definition Sub :: "time \<Rightarrow> time \<Rightarrow> int" where
  "Sub t u = (let d = t - u in
     if d < minDuration then minDuration else if maxDuration < d then maxDuration else d)"

definition Millisecond :: int where
  "Millisecond = 1000000"

subsection \<open>Trace and span identifiers\<close>

text \<open>
  \<open>trace.SpanID\<close> is \<open>[8]byte\<close> and \<open>trace.TraceID\<close> is \<open>[16]byte\<close>; their \<open>String\<close>
  methods print the bytes as lower-case hexadecimal, two digits a byte.
\<close>

type_synonym byte = "8 word"

datatype SpanID = SpanID byte byte byte byte byte byte byte byte

datatype TraceID = TraceID byte byte byte byte byte byte byte byte
                           byte byte byte byte byte byte byte byte

definition hex_digit :: "nat \<Rightarrow> char" where
  "hex_digit n = ''0123456789abcdef'' ! (n mod 16)"

definition hex_byte :: "byte \<Rightarrow> string" where
  "hex_byte b = [hex_digit (unat b div 16), hex_digit (unat b mod 16)]"

fun SpanID_String :: "SpanID \<Rightarrow> string" where
  "SpanID_String (SpanID a b c d e f g h) = concat (map hex_byte [a, b, c, d, e, f, g, h])"

fun TraceID_String :: "TraceID \<Rightarrow> string" where
  "TraceID_String (TraceID a b c d e f g h i j k l m n p q) =
     concat (map hex_byte [a, b, c, d, e, f, g, h, i, j, k, l, m, n, p, q])"

definition zero_SpanID :: SpanID where
  "zero_SpanID = SpanID 0 0 0 0 0 0 0 0"

subsection \<open>Field values\<close>

text \<open>The \<open>interface{}\<close> values that attributes and event fields hold.\<close>

datatype val =
    StringV string
  | BoolV bool
  | Int32V "32 word"
  | Int64V "64 word"
  | Float64V float64
  | TimeV time

section \<open>The span data of the tracing runtime\<close>

text \<open>
  A Go map is listed as its entries in the order a \<open>range\<close> loop visits them; a map holds
  each key once (\<open>is_map\<close>).
\<close>

type_synonym attributes = "(string \<times> val) list"

definition is_map :: "attributes \<Rightarrow> bool" where
  "is_map kvs = distinct (map fst kvs)"

record Status =
  Code :: "32 word"
  Message :: string

record trace_Annotation =
  Time_an :: time
  Message_an :: string
  Attributes_an :: attributes

record SpanData =
  TraceID_sd :: TraceID
  SpanID_sd :: SpanID
  ParentSpanID :: SpanID
  Name_sd :: string
  StartTime :: time
  EndTime :: time
  Attributes_sd :: attributes
  Annotations :: "trace_Annotation list"
  Status :: Status

section \<open>The event client (libhoney)\<close>

text \<open>
  An event carries a sample rate, a timestamp and its fields. A builder gives a new event
  its own sample rate and fields, and the current time. \<open>AddField\<close> stores one field,
  replacing a field of the same name. \<open>SendPresampled\<close> hands the event to the transport,
  here the list of the events handed over so far, oldest first.
\<close>

record Event =
  SampleRate :: "64 word"
  Timestamp :: time
  data :: "string \<rightharpoonup> val"

record Builder =
  SampleRate_b :: "64 word"
  data_b :: "string \<rightharpoonup> val"

definition NewEvent :: "time \<Rightarrow> Builder \<Rightarrow> Event" where
  "NewEvent now b = \<lparr>SampleRate = SampleRate_b b, Timestamp = now, data = data_b b\<rparr>"

definition AddField :: "string \<Rightarrow> val \<Rightarrow> Event \<Rightarrow> Event" where
  "AddField k v ev = ev\<lparr>data := (data ev)(k \<mapsto> v)\<rparr>"

fun AddFields :: "(string \<times> val) list \<Rightarrow> Event \<Rightarrow> Event" where
  "AddFields [] ev = ev"
| "AddFields ((k, v) # kvs) ev = AddFields kvs (AddField k v ev)"

definition SendPresampled :: "Event \<Rightarrow> Event list \<Rightarrow> Event list" where
  "SendPresampled ev sent = sent @ [ev]"

text \<open>
  \<open>Add\<close> of a struct adds each field under the name of its \<open>json\<close> tag. A field tagged
  \<open>omitempty\<close> is left out when its value is empty: \<open>false\<close>, a number equal to 0, or a
  string of length 0. A struct value such as a \<open>time.Time\<close> is never empty.
\<close>

fun isEmptyValue :: "val \<Rightarrow> bool" where
  "isEmptyValue (StringV s) = (length s = 0)"
| "isEmptyValue (BoolV b) = (\<not> b)"
| "isEmptyValue (Int32V i) = (i = 0)"
| "isEmptyValue (Int64V i) = (i = 0)"
| "isEmptyValue (Float64V x) = f64_eq x (Fin 0)"
| "isEmptyValue (TimeV t) = False"

definition struct_field :: "string \<Rightarrow> bool \<Rightarrow> val \<Rightarrow> (string \<times> val) list" where
  "struct_field tag omitempty v = (if omitempty \<and> isEmptyValue v then [] else [(tag, v)])"

section \<open>The exporter\<close>

record Exporter =
  Builder :: Builder
  SampleFraction :: float64
  ServiceName :: string

text \<open>
  \<open>NewExporter\<close> takes the builder that the client gives for the write key and the
  dataset: no sampling, no service name.
\<close>

definition NewExporter :: "Builder \<Rightarrow> Exporter" where
  "NewExporter builder = \<lparr>Builder = builder, SampleFraction = Fin 1, ServiceName = []\<rparr>"

text \<open>The two event formats, with the tags of their fields.\<close>

record Annotation =
  Name_ha :: string
  TraceID_ha :: string
  ParentID_ha :: string
  Timestamp_ha :: time

record Span =
  TraceID_hs :: string
  Name_hs :: string
  ID_hs :: string
  ParentID_hs :: string
  DurationMs :: float64
  Timestamp_hs :: time

definition Annotation_fields :: "Annotation \<Rightarrow> (string \<times> val) list" where
  "Annotation_fields x =
     struct_field ''name'' False (StringV (Name_ha x)) @
     struct_field ''trace.trace_id'' False (StringV (TraceID_ha x)) @
     struct_field ''trace.parent_id'' False (StringV (ParentID_ha x)) @
     struct_field ''timestamp'' False (TimeV (Timestamp_ha x))"

definition Span_fields :: "Span \<Rightarrow> (string \<times> val) list" where
  "Span_fields x =
     struct_field ''trace.trace_id'' False (StringV (TraceID_hs x)) @
     struct_field ''name'' False (StringV (Name_hs x)) @
     struct_field ''trace.span_id'' False (StringV (ID_hs x)) @
     struct_field ''trace.parent_id'' True (StringV (ParentID_hs x)) @
     struct_field ''duration_ms'' False (Float64V (DurationMs x)) @
     struct_field ''timestamp'' True (TimeV (Timestamp_hs x))"

text \<open>What the platform decides: the clock, and \<open>uint\<close> of a float that is no \<open>uint\<close>.\<close>

record platform =
  now :: time
  uint_impl :: "float64 \<Rightarrow> 64 word"

definition honeycombSpan :: "SpanData \<Rightarrow> Span" where
  "honeycombSpan s =
     (let hcSpan = \<lparr>TraceID_hs = TraceID_String (TraceID_sd s), Name_hs = Name_sd s,
                     ID_hs = SpanID_String (SpanID_sd s), ParentID_hs = [],
                     DurationMs = Fin 0, Timestamp_hs = StartTime s\<rparr>;
          hcSpan = (if ParentSpanID s \<noteq> zero_SpanID
                    then hcSpan\<lparr>ParentID_hs := SpanID_String (ParentSpanID s)\<rparr> else hcSpan);
          hcSpan = (if \<not> IsZero (StartTime s) \<and> \<not> IsZero (EndTime s)
                    then hcSpan\<lparr>DurationMs :=
                           f64_div (float64_of_int64 (Sub (EndTime s) (StartTime s)))
                                   (float64_of_int64 Millisecond)\<rparr>
                    else hcSpan)
      in hcSpan)"

text \<open>The event \<open>exportAnnotation\<close> builds, up to its \<open>SendPresampled\<close>.\<close>

definition annotation_event :: "platform \<Rightarrow> Exporter \<Rightarrow> SpanData \<Rightarrow> trace_Annotation \<Rightarrow> Event" where
  "annotation_event p e sd a =
     (let ev = NewEvent (now p) (Builder e);
          ev = (if f64_ne (SampleFraction e) (Fin 0)
                then ev\<lparr>SampleRate :=
                       uint_of_float64 (uint_impl p) (f64_div (Fin 1) (SampleFraction e))\<rparr>
                else ev);
          ev = (if ServiceName e \<noteq> [] then AddField ''service_name'' (StringV (ServiceName e)) ev
                else ev);
          ev = ev\<lparr>Timestamp := Time_an a\<rparr>;
          ev = AddFields (Annotation_fields
                 \<lparr>Name_ha = Message_an a, TraceID_ha = TraceID_String (TraceID_sd sd),
                  ParentID_ha = SpanID_String (SpanID_sd sd), Timestamp_ha = Time_an a\<rparr>) ev;
          ev = AddField ''trace.annotation'' (BoolV True) ev;
          ev = (if length (Attributes_an a) \<noteq> 0 then AddFields (Attributes_an a) ev else ev)
      in ev)"

definition exportAnnotation ::
  "platform \<Rightarrow> Exporter \<Rightarrow> SpanData \<Rightarrow> trace_Annotation \<Rightarrow> Event list \<Rightarrow> Event list" where
  "exportAnnotation p e sd a sent = SendPresampled (annotation_event p e sd a) sent"

text \<open>The event \<open>ExportSpan\<close> builds for the span itself, up to its \<open>SendPresampled\<close>.\<close>

definition span_event :: "platform \<Rightarrow> Exporter \<Rightarrow> SpanData \<Rightarrow> Event" where
  "span_event p e sd =
     (let ev = NewEvent (now p) (Builder e);
          ev = (if f64_ne (SampleFraction e) (Fin 0)
                then ev\<lparr>SampleRate :=
                       uint_of_float64 (uint_impl p) (f64_div (Fin 1) (SampleFraction e))\<rparr>
                else ev);
          ev = (if ServiceName e \<noteq> [] then AddField ''service_name'' (StringV (ServiceName e)) ev
                else ev);
          ev = ev\<lparr>Timestamp := StartTime sd\<rparr>;
          hs = honeycombSpan sd;
          ev = AddFields (Span_fields hs) ev;
          ev = (if length (Attributes_sd sd) \<noteq> 0 then AddFields (Attributes_sd sd) ev else ev);
          ev = (if Code (Status sd) \<noteq> 0
                then AddField ''status_code'' (Int32V (Code (Status sd))) ev else ev);
          ev = (if Message (Status sd) \<noteq> []
                then AddField ''status_description'' (StringV (Message (Status sd))) ev else ev)
      in ev)"

fun export_annotations ::
  "platform \<Rightarrow> Exporter \<Rightarrow> SpanData \<Rightarrow> trace_Annotation list \<Rightarrow> Event list \<Rightarrow> Event list" where
  "export_annotations p e sd [] sent = sent"
| "export_annotations p e sd (a # as) sent =
     export_annotations p e sd as (exportAnnotation p e sd a sent)"

definition ExportSpan :: "platform \<Rightarrow> Exporter \<Rightarrow> SpanData \<Rightarrow> Event list \<Rightarrow> Event list" where
  "ExportSpan p e sd sent =
     export_annotations p e sd (Annotations sd) (SendPresampled (span_event p e sd) sent)"

section \<open>Auxiliary definitions\<close>

text \<open>\<open>uses_key k kvs\<close>: the map \<open>kvs\<close> has an entry under the key \<open>k\<close>.\<close>

definition uses_key :: "string \<Rightarrow> attributes \<Rightarrow> bool" where
  "uses_key k kvs = (k \<in> fst ` set kvs)"

text \<open>
  The fields of the span event before the attributes are added, and the two status fields
  added after them.
\<close>

definition span_static :: "Exporter \<Rightarrow> SpanData \<Rightarrow> string \<rightharpoonup> val" where
  "span_static e sd =
     (if ServiceName e \<noteq> [] then (data_b (Builder e))(''service_name'' \<mapsto> StringV (ServiceName e))
       else data_b (Builder e)) ++ map_of (rev (Span_fields (honeycombSpan sd)))"

definition with_status :: "SpanData \<Rightarrow> (string \<rightharpoonup> val) \<Rightarrow> string \<rightharpoonup> val" where
  "with_status sd m =
     (let m = (if Code (Status sd) \<noteq> 0 then m(''status_code'' \<mapsto> Int32V (Code (Status sd))) else m)
      in if Message (Status sd) \<noteq> [] then m(''status_description'' \<mapsto> StringV (Message (Status sd))) else m)"

subsection \<open>Example inputs\<close>

text \<open>
  An exporter as \<open>NewExporter\<close> returns it, with a service name set, and a span with one
  attribute, one annotation and a status.
\<close>

definition ex_platform :: platform where
  "ex_platform = \<lparr>now = 63681292800000000000, uint_impl = (\<lambda>x. 0)\<rparr>"

definition ex_builder :: Builder where
  "ex_builder = \<lparr>SampleRate_b = 1, data_b = Map.empty\<rparr>"

definition ex_exporter :: Exporter where
  "ex_exporter = (NewExporter ex_builder)\<lparr>ServiceName := ''svc''\<rparr>"

definition ex_annotation :: trace_Annotation where
  "ex_annotation = \<lparr>Time_an = 63681292800000050000, Message_an = ''cache miss'',
     Attributes_an = [(''key'', StringV ''user:42'')]\<rparr>"

definition ex_span :: SpanData where
  "ex_span = \<lparr>TraceID_sd = TraceID 1 2 3 4 5 6 7 8 9 10 11 12 13 14 15 16,
     SpanID_sd = SpanID 0 0 0 0 0 0 0 1, ParentSpanID = SpanID 0 0 0 0 0 0 0 2,
     Name_sd = ''GET /'', StartTime = 63681292800000000000, EndTime = 63681292800150000000,
     Attributes_sd = [(''http.status'', Int64V 200)], Annotations = [ex_annotation],
     Status = \<lparr>Code = 2, Message = ''unknown''\<rparr>\<rparr>"

section \<open>Events and their fields\<close>

lemma SampleRate_AddField: "SampleRate (AddField k v ev) = SampleRate ev"
  by (simp add: AddField_def)

lemma data_AddField: "data (AddField k v ev) = (data ev)(k \<mapsto> v)"
  by (simp add: AddField_def)

lemma SampleRate_AddFields: "SampleRate (AddFields kvs ev) = SampleRate ev"
  by (induction kvs ev rule: AddFields.induct) (simp_all add: SampleRate_AddField)

lemma data_AddFields: "data (AddFields kvs ev) = data ev ++ map_of (rev kvs)"
proof (induction kvs ev rule: AddFields.induct)
  case (1 ev)
  then show ?case by simp
next
  case (2 k v kvs ev)
  have "data (AddFields ((k, v) # kvs) ev) = (data ev)(k \<mapsto> v) ++ map_of (rev kvs)"
    using "2.IH" by (simp only: AddFields.simps data_AddField)
  also have "\<dots> = data ev ++ (map_of (rev kvs) ++ [k \<mapsto> v] ++ map_of (rev kvs))"
    by (rule ext) (simp add: map_add_def split: option.splits)
  also have "\<dots> = data ev ++ map_of (rev ((k, v) # kvs))"
    by (rule ext) (simp add: map_add_def split: option.splits)
  finally show ?case .
qed

lemma export_annotations_eq:
  "export_annotations p e sd as sent = sent @ map (annotation_event p e sd) as"
  by (induction as arbitrary: sent) (simp_all add: exportAnnotation_def SendPresampled_def)

lemma ExportSpan_eq:
  "ExportSpan p e sd sent = sent @ span_event p e sd # map (annotation_event p e sd) (Annotations sd)"
  by (simp add: ExportSpan_def export_annotations_eq SendPresampled_def)

lemma hex_byte_length: "length (hex_byte b) = 2"
  by (simp add: hex_byte_def)

lemma SpanID_String_length: "length (SpanID_String s) = 16"
  by (cases s) (simp add: hex_byte_length)

lemma SpanID_String_nonempty: "SpanID_String s \<noteq> []"
  using SpanID_String_length[of s] by auto

lemma map_add_rev_other:
  "\<not> uses_key k kvs \<Longrightarrow> (m ++ map_of (rev kvs)) k = m k"
  by (simp add: uses_key_def map_add_def map_of_eq_None_iff[THEN iffD2] split: option.splits)

lemma map_add_rev_member:
  assumes "is_map kvs" and "(k, v) \<in> set kvs"
  shows "(m ++ map_of (rev kvs)) k = Some v"
proof -
  have "distinct (map fst (rev kvs))" using assms(1) by (simp add: is_map_def rev_map[symmetric])
  moreover have "(k, v) \<in> set (rev kvs)" using assms(2) by simp
  ultimately have "map_of (rev kvs) k = Some v" by (rule map_of_is_SomeI)
  then show ?thesis by simp
qed

lemma data_annotation_event:
  "data (annotation_event p e sd a) =
     ((if ServiceName e \<noteq> [] then (data_b (Builder e))(''service_name'' \<mapsto> StringV (ServiceName e))
       else data_b (Builder e))
      (''name'' \<mapsto> StringV (Message_an a),
       ''trace.trace_id'' \<mapsto> StringV (TraceID_String (TraceID_sd sd)),
       ''trace.parent_id'' \<mapsto> StringV (SpanID_String (SpanID_sd sd)),
       ''timestamp'' \<mapsto> TimeV (Time_an a),
       ''trace.annotation'' \<mapsto> BoolV True)) ++ map_of (rev (Attributes_an a))"
  by (simp add: annotation_event_def Let_def NewEvent_def data_AddField
      data_AddFields Annotation_fields_def struct_field_def)

lemma data_span_event:
  "data (span_event p e sd) = with_status sd (span_static e sd ++ map_of (rev (Attributes_sd sd)))"
  by (simp add: span_event_def span_static_def with_status_def Let_def NewEvent_def data_AddField
      data_AddFields)

lemma span_static_parent:
  "data_b (Builder e) ''trace.parent_id'' = None \<Longrightarrow>
   span_static e sd ''trace.parent_id'' =
     (if ParentSpanID sd \<noteq> zero_SpanID then Some (StringV (SpanID_String (ParentSpanID sd))) else None)"
  by (simp add: span_static_def Span_fields_def struct_field_def honeycombSpan_def Let_def
      map_add_def SpanID_String_nonempty)

lemma span_static_timestamp:
  "span_static e sd ''timestamp'' = Some (TimeV (StartTime sd))"
  by (simp add: span_static_def Span_fields_def struct_field_def honeycombSpan_def Let_def
      map_add_def)


lemma span_static_status:
  "span_static e sd ''status_code'' = data_b (Builder e) ''status_code''"
  "span_static e sd ''status_description'' = data_b (Builder e) ''status_description''"
  by (simp_all add: span_static_def Span_fields_def struct_field_def honeycombSpan_def Let_def
      map_add_def)

lemma with_status_other:
  "k \<noteq> ''status_code'' \<Longrightarrow> k \<noteq> ''status_description'' \<Longrightarrow> with_status sd m k = m k"
  by (simp add: with_status_def Let_def)

lemma with_status_keep:
  assumes "k = ''status_code'' \<longrightarrow> Code (Status sd) = 0"
    and "k = ''status_description'' \<longrightarrow> Message (Status sd) = []"
  shows "with_status sd m k = m k"
proof -
  consider "k = ''status_code''" | "k = ''status_description''"
    | "k \<noteq> ''status_code''" "k \<noteq> ''status_description''" by blast
  then show ?thesis
  proof cases
    case 1
    then show ?thesis using assms(1) by (simp add: with_status_def Let_def)
  next
    case 2
    then show ?thesis using assms(2) by (simp add: with_status_def Let_def)
  next
    case 3
    then show ?thesis by (simp add: with_status_def Let_def)
  qed
qed

lemma with_status_code:
  "with_status sd m ''status_code'' =
     (if Code (Status sd) \<noteq> 0 then Some (Int32V (Code (Status sd))) else m ''status_code'')"
  by (simp add: with_status_def Let_def)

lemma with_status_description:
  "with_status sd m ''status_description'' =
     (if Message (Status sd) \<noteq> [] then Some (StringV (Message (Status sd))) else m ''status_description'')"
  by (simp add: with_status_def Let_def)

section \<open>Rounding to float64\<close>

lemma pow2_pos: "(0::rat) < 2 powi k"
  by (simp add: zero_less_power_int)

lemma bitlen_powi_bounds:
  assumes "0 < x"
  shows "(2::rat) powi (bitlen x - 1) \<le> of_int x" and "(of_int x :: rat) < 2 powi (bitlen x)"
proof -
  have b1: "1 \<le> bitlen x" using assms bitlen_eq_zero_iff[of x] bitlen_nonneg[of x] by linarith
  have "2 ^ nat (bitlen x - 1) \<le> x" and "x < 2 ^ nat (bitlen x)"
    using bitlen_bounds[OF assms] by auto
  then have "(of_int (2 ^ nat (bitlen x - 1)) :: rat) \<le> of_int x"
    and "(of_int x :: rat) < of_int (2 ^ nat (bitlen x))"
    by (simp_all only: of_int_le_iff of_int_less_iff)
  then show "(2::rat) powi (bitlen x - 1) \<le> of_int x" and "(of_int x :: rat) < 2 powi (bitlen x)"
    using b1 by (simp_all add: power_int_nonneg_exp)
qed

lemma ilog2_bounds:
  assumes "0 < r"
  shows "2 powi (ilog2 r) \<le> r" and "r < 2 powi (ilog2 r + 1)"
proof -
  obtain a b where ab: "quotient_of r = (a, b)" by force
  have bpos: "0 < b" using ab quotient_of_denom_pos by blast
  have r: "r = of_int a / of_int b" using ab by (rule quotient_of_div)
  have apos: "0 < a"
    using assms bpos r by (simp add: zero_less_divide_iff)
  define e where "e = bitlen a - bitlen b"
  have au: "(of_int a :: rat) < 2 powi (bitlen a)" and bl: "(2::rat) powi (bitlen b - 1) \<le> of_int b"
    using bitlen_powi_bounds[OF apos] bitlen_powi_bounds[OF bpos] by auto
  have "r * 2 powi (bitlen b - 1) \<le> r * of_int b"
    using bl assms by (simp add: mult_left_mono)
  also have "\<dots> = of_int a" using r bpos by simp
  also have "\<dots> < 2 powi (bitlen a)" by (rule au)
  finally have "r * 2 powi (bitlen b - 1) < 2 powi (bitlen a)" .
  then have "r < 2 powi (bitlen a) / 2 powi (bitlen b - 1)"
    by (simp add: pos_less_divide_eq pow2_pos)
  also have "\<dots> = 2 powi (e + 1)"
    by (simp add: e_def power_int_diff[symmetric] algebra_simps)
  finally have up: "r < 2 powi (e + 1)" .
  have il: "ilog2 r = (if 2 powi e \<le> r then e else e - 1)"
    by (simp add: ilog2_def ab e_def Let_def)
  have al: "(2::rat) powi (bitlen a - 1) \<le> of_int a" and bu: "(of_int b :: rat) < 2 powi (bitlen b)"
    using bitlen_powi_bounds[OF apos] bitlen_powi_bounds[OF bpos] by auto
  have "2 powi (bitlen a - 1) \<le> (of_int a :: rat)" by (rule al)
  also have "\<dots> = r * of_int b" using r bpos by simp
  also have "\<dots> < r * 2 powi (bitlen b)"
    using bu assms by (simp add: mult_strict_left_mono)
  finally have "2 powi (bitlen a - 1) / 2 powi (bitlen b) < r"
    by (simp add: pos_divide_less_eq pow2_pos)
  moreover have "(2::rat) powi (bitlen a - 1) / 2 powi (bitlen b) = 2 powi (e - 1)"
    by (simp add: e_def power_int_diff[symmetric] algebra_simps)
  ultimately have lo: "2 powi (e - 1) < r" by simp
  show "2 powi (ilog2 r) \<le> r" using il lo by (auto simp: less_imp_le)
  show "r < 2 powi (ilog2 r + 1)" using il up by (auto simp: not_le)
qed

lemma ilog2_less:
  assumes "0 < r" and "r < 2 powi h"
  shows "ilog2 r < h"
proof (rule ccontr)
  assume "\<not> ilog2 r < h"
  then have "(2::rat) powi h \<le> 2 powi (ilog2 r)" by (simp add: power_int_increasing)
  then show False using ilog2_bounds(1)[OF assms(1)] assms(2) by linarith
qed

lemma ilog2_ge:
  assumes "0 < r" and "2 powi l \<le> r"
  shows "l \<le> ilog2 r"
proof (rule ccontr)
  assume "\<not> l \<le> ilog2 r"
  then have "(2::rat) powi (ilog2 r + 1) \<le> 2 powi l" by (simp add: power_int_increasing)
  then show False using ilog2_bounds(2)[OF assms(1)] assms(2) by linarith
qed

lemma round_half_even_of_int: "round_half_even (of_int k) = k"
  by (simp add: round_half_even_def)

lemma round_half_even_floor:
  shows "\<lfloor>m\<rfloor> \<le> round_half_even m" and "round_half_even m \<le> \<lfloor>m\<rfloor> + 1"
  by (simp_all add: round_half_even_def Let_def)

lemma round_half_even_error: "\<bar>of_int (round_half_even m) - m\<bar> \<le> 1 / 2"
proof -
  have "of_int \<lfloor>m\<rfloor> \<le> m" and "m < of_int \<lfloor>m\<rfloor> + 1" by linarith+
  then show ?thesis
    by (auto simp add: round_half_even_def Let_def abs_le_iff)
qed

lemma round_half_even_ge:
  assumes "of_int j \<le> m"
  shows "j \<le> round_half_even m"
proof -
  have "j \<le> \<lfloor>m\<rfloor>" using assms by (simp add: le_floor_iff)
  then show ?thesis using round_half_even_floor(1)[of m] by linarith
qed

lemma round_half_even_le:
  assumes "m < of_int j"
  shows "round_half_even m \<le> j"
proof -
  have "\<lfloor>m\<rfloor> < j" using assms by (simp add: floor_less_iff)
  then show ?thesis using round_half_even_floor(2)[of m] by linarith
qed

text \<open>A value in the normal range: the result is finite, in the binade of the value, and
  within half a unit in the last place.\<close>

lemma round_f64_normal:
  assumes "r \<noteq> 0" and "- 1022 \<le> ilog2 \<bar>r\<bar>" and "ilog2 \<bar>r\<bar> \<le> 1022"
  shows "\<exists>v. round_f64 r = Fin (if r < 0 then - v else v)
           \<and> 2 powi (ilog2 \<bar>r\<bar>) \<le> v \<and> v \<le> 2 powi (ilog2 \<bar>r\<bar> + 1)
           \<and> \<bar>v - \<bar>r\<bar>\<bar> \<le> 2 powi (ilog2 \<bar>r\<bar> - 53)"
proof -
  define a where "a = \<bar>r\<bar>"
  define e where "e = ilog2 a"
  define q where "q = e - 52"
  define m where "m = a / 2 powi q"
  define n where "n = round_half_even m"
  define v where "v = of_int n * (2::rat) powi q"
  have apos: "0 < a" using assms(1) by (simp add: a_def)
  have emax: "max (ilog2 a) (- 1022) = e" using assms(2) by (simp add: e_def a_def)
  have lo: "2 powi e \<le> a" and hi: "a < 2 powi (e + 1)"
    using ilog2_bounds[OF apos] by (simp_all add: e_def)
  have p52: "(2::rat) powi e / 2 powi q = 2 ^ 52"
    by (simp add: q_def power_int_diff[symmetric])
  have p53: "(2::rat) powi (e + 1) / 2 powi q = 2 ^ 53"
    by (simp add: q_def power_int_diff[symmetric])
  have "2 powi e / 2 powi q \<le> a / 2 powi q"
    using lo by (intro divide_right_mono) (simp_all add: pow2_pos less_imp_le)
  then have mlo: "2 ^ 52 \<le> m" by (simp only: p52 m_def)
  have "a / 2 powi q < 2 powi (e + 1) / 2 powi q"
    using hi by (intro divide_strict_right_mono) (simp_all add: pow2_pos)
  then have mhi: "m < 2 ^ 53" by (simp only: p53 m_def)
  have nlo: "2 ^ 52 \<le> n"
    unfolding n_def using mlo by (intro round_half_even_ge) simp
  have nhi: "n \<le> 2 ^ 53"
    unfolding n_def using mhi by (intro round_half_even_le) simp
  have vlo: "2 powi e \<le> v"
  proof -
    have "(2::rat) powi e = 2 ^ 52 * 2 powi q" using p52 by (simp add: field_simps)
    also have "\<dots> \<le> of_int n * 2 powi q"
      using nlo by (intro mult_right_mono) (simp_all add: pow2_pos less_imp_le flip: of_int_le_iff)
    finally show ?thesis by (simp add: v_def)
  qed
  have vhi: "v \<le> 2 powi (e + 1)"
  proof -
    have "v \<le> 2 ^ 53 * 2 powi q"
      unfolding v_def using nhi
      by (intro mult_right_mono) (simp_all add: pow2_pos less_imp_le flip: of_int_le_iff)
    also have "\<dots> = 2 powi (e + 1)" using p53 by (simp add: field_simps)
    finally show ?thesis .
  qed
  have verr: "\<bar>v - a\<bar> \<le> 2 powi (e - 53)"
  proof -
    have "v - a = (of_int n - m) * 2 powi q" by (simp add: v_def m_def algebra_simps)
    then have "\<bar>v - a\<bar> = \<bar>of_int n - m\<bar> * 2 powi q"
      by (simp add: abs_mult pow2_pos less_imp_le)
    also have "\<dots> \<le> (1 / 2) * 2 powi q"
      unfolding n_def by (intro mult_right_mono round_half_even_error) (simp add: pow2_pos less_imp_le)
    also have "\<dots> = 2 powi (e - 53)"
    proof -
      have "e - 53 = q - 1" by (simp add: q_def)
      then show ?thesis by (simp add: power_int_diff)
    qed
    finally show ?thesis .
  qed
  have "v \<le> 2 powi 1023"
    using vhi assms(3) power_int_increasing[of "e + 1" 1023 "2::rat"]
    by (simp add: e_def a_def)
  also have "\<dots> < (2::rat) powi 1024" by (rule power_int_strict_increasing) simp_all
  finally have nov: "\<not> 2 powi 1024 \<le> v" by simp
  have nz: "n \<noteq> 0" using nlo by auto
  have "round_f64 r = Fin (if r < 0 then - v else v)"
    using assms(1) nov nz emax
    unfolding round_f64_def Let_def a_def[symmetric] q_def[symmetric] m_def[symmetric]
      n_def[symmetric] v_def[symmetric] e_def[symmetric]
    by (simp add: q_def[symmetric] m_def[symmetric] n_def[symmetric] v_def[symmetric])
  then show ?thesis using vlo vhi verr by (auto simp: e_def a_def)
qed

text \<open>A value that is a whole multiple of the unit of its binade is not changed.\<close>

lemma round_f64_exact:
  assumes "r \<noteq> 0" and "\<bar>r\<bar> = of_int j * 2 powi (max (ilog2 \<bar>r\<bar>) (- 1022) - 52)"
    and "\<bar>r\<bar> < 2 powi 1024"
  shows "round_f64 r = Fin r"
proof -
  define q where "q = max (ilog2 \<bar>r\<bar>) (- 1022) - 52"
  have a: "\<bar>r\<bar> = of_int j * 2 powi q" using assms(2) by (simp add: q_def)
  have m: "\<bar>r\<bar> / 2 powi q = of_int j" by (simp add: a)
  have jz: "j \<noteq> 0" using a assms(1) by auto
  have v: "rat_of_int j * 2 powi q = \<bar>r\<bar>" by (simp add: a)
  show ?thesis
    using assms(1,3) jz
    unfolding round_f64_def Let_def q_def[symmetric] m round_half_even_of_int v
    by (simp add: abs_if split: if_splits)
qed

lemma round_f64_of_int:
  assumes "\<bar>k\<bar> \<le> 2 ^ 53"
  shows "round_f64 (of_int k) = Fin (of_int k)"
proof (cases "k = 0")
  case True
  then show ?thesis by (simp add: round_f64_def)
next
  case False
  define a :: rat where "a = \<bar>of_int k\<bar>"
  define e where "e = ilog2 a"
  have ak: "a = of_int \<bar>k\<bar>" by (simp add: a_def)
  have apos: "0 < a" using False by (simp add: a_def)
  have "1 \<le> \<bar>k\<bar>" using False by simp
  then have "(1::rat) \<le> of_int \<bar>k\<bar>" by (simp only: of_int_1_le_iff)
  then have a1: "2 powi 0 \<le> a" by (simp add: ak)
  have a53: "a \<le> 2 ^ 53"
    using assms unfolding ak by (metis of_int_le_iff of_int_numeral of_int_power)
  then have "a < 2 powi 54" by simp
  then have ehi: "e < 54" unfolding e_def by (rule ilog2_less[OF apos])
  have elo: "0 \<le> e" unfolding e_def by (rule ilog2_ge[OF apos a1])
  have emax: "max (ilog2 a) (- 1022) = e" using elo by (simp add: e_def)
  have "\<exists>j. a = of_int j * 2 powi (e - 52)"
  proof (cases "e \<le> 52")
    case True
    have "a = of_int (\<bar>k\<bar> * 2 ^ nat (52 - e)) * 2 powi (e - 52)"
    proof -
      have "(2::rat) ^ nat (52 - e) = 2 powi (52 - e)"
        using True by (simp add: power_int_nonneg_exp)
      then have "rat_of_int (\<bar>k\<bar> * 2 ^ nat (52 - e)) * 2 powi (e - 52)
          = of_int \<bar>k\<bar> * (2 powi (52 - e) * 2 powi (e - 52))" by (simp add: mult.assoc)
      also have "(2::rat) powi (52 - e) * 2 powi (e - 52) = 1"
        by (simp add: power_int_add[symmetric])
      finally show ?thesis by (simp add: ak)
    qed
    then show ?thesis by blast
  next
    case False
    then have e53: "e = 53" using ehi by simp
    have "2 powi 53 \<le> a" using ilog2_bounds(1)[OF apos] by (simp add: e_def[symmetric] e53)
    then have "a = 2 ^ 53" using a53 by simp
    then have "a = of_int (2 ^ 52) * 2 powi (e - 52)" by (simp add: e53)
    then show ?thesis by blast
  qed
  then obtain j where j: "a = of_int j * 2 powi (e - 52)" by blast
  have big: "a < 2 powi 1024"
  proof -
    have "a < 2 powi 54" by fact
    also have "\<dots> < (2::rat) powi 1024" by (rule power_int_strict_increasing) simp_all
    finally show ?thesis .
  qed
  show ?thesis
  proof (rule round_f64_exact[where j = j])
    show "rat_of_int k \<noteq> 0" using False by simp
    show "\<bar>rat_of_int k\<bar> = of_int j * 2 powi (max (ilog2 \<bar>rat_of_int k\<bar>) (- 1022) - 52)"
      unfolding a_def[symmetric] emax by (rule j)
    show "\<bar>rat_of_int k\<bar> < 2 powi 1024"
      unfolding a_def[symmetric] by (rule big)
  qed
qed

lemma round_f64_rel:
  assumes "r \<noteq> 0" and "2 powi lo \<le> \<bar>r\<bar>" and "\<bar>r\<bar> < 2 powi hi"
    and "- 1022 \<le> lo" and "hi \<le> 1023"
  shows "\<exists>v. round_f64 r = Fin (if r < 0 then - v else v)
           \<and> 2 powi lo \<le> v \<and> v \<le> 2 powi hi \<and> \<bar>v - \<bar>r\<bar>\<bar> \<le> \<bar>r\<bar> / 2 ^ 53"
proof -
  define e where "e = ilog2 \<bar>r\<bar>"
  have apos: "0 < \<bar>r\<bar>" using assms(1) by simp
  have elo: "lo \<le> e" unfolding e_def by (rule ilog2_ge[OF apos assms(2)])
  have ehi: "e < hi" unfolding e_def by (rule ilog2_less[OF apos assms(3)])
  obtain v where v: "round_f64 r = Fin (if r < 0 then - v else v)"
    and vlo: "2 powi e \<le> v" and vhi: "v \<le> 2 powi (e + 1)"
    and verr: "\<bar>v - \<bar>r\<bar>\<bar> \<le> 2 powi (e - 53)"
    using round_f64_normal[of r] assms(1,4,5) elo ehi unfolding e_def[symmetric] by auto
  have "(2::rat) powi lo \<le> 2 powi e" using elo by (simp add: power_int_increasing)
  then have 1: "2 powi lo \<le> v" using vlo by linarith
  have "(2::rat) powi (e + 1) \<le> 2 powi hi" using ehi by (simp add: power_int_increasing)
  then have 2: "v \<le> 2 powi hi" using vhi by linarith
  have "(2::rat) powi (e - 53) = 2 powi e / 2 ^ 53" by (simp add: power_int_diff)
  also have "\<dots> \<le> \<bar>r\<bar> / 2 ^ 53"
    using ilog2_bounds(1)[OF apos] unfolding e_def[symmetric]
    by (intro divide_right_mono) simp_all
  finally have 3: "\<bar>v - \<bar>r\<bar>\<bar> \<le> \<bar>r\<bar> / 2 ^ 53" using verr by linarith
  show ?thesis using v 1 2 3 by blast
qed





lemma ilog2_eqI:
  assumes "2 powi e \<le> r" and "r < 2 powi (e + 1)"
  shows "ilog2 r = e"
proof -
  have rpos: "0 < r" using assms(1) pow2_pos[of e] by linarith
  have "e \<le> ilog2 r" by (rule ilog2_ge[OF rpos assms(1)])
  moreover have "ilog2 r < e + 1" by (rule ilog2_less[OF rpos assms(2)])
  ultimately show ?thesis by simp
qed



text \<open>
  The values of the examples. The first is the well-known double of one tenth,
  \<open>0x3FB999999999999A\<close>.
\<close>

lemma round_f64_tenth: "round_f64 (1 / 10) = Fin (3602879701896397 / 36028797018963968)"
  by code_simp

lemma round_f64_4: "round_f64 4 = Fin 4"
  using round_f64_of_int[of 4] by simp

lemma round_f64_8_5: "round_f64 (8 / 5) = Fin (3602879701896397 / 2251799813685248)"
  by code_simp

lemma round_f64_5_8: "round_f64 (5 / 8) = Fin (5 / 8)"
proof (rule round_f64_exact[where j = "5 * 2 ^ 50"])
  have "ilog2 (5 / 8) = - 1" by (rule ilog2_eqI) (simp_all add: power_int_minus_divide)
  then show "\<bar>5 / 8 :: rat\<bar> = of_int (5 * 2 ^ 50) * 2 powi (max (ilog2 \<bar>5 / 8\<bar>) (- 1022) - 52)"
    by (simp add: power_int_minus_divide)
  have "(5 / 8 :: rat) < 2 powi 0" by simp
  also have "\<dots> < (2::rat) powi 1024" by (rule power_int_strict_increasing) simp_all
  finally show "\<bar>5 / 8 :: rat\<bar> < 2 powi 1024" by simp
qed simp




section \<open>The sample rate and the duration\<close>

lemma SampleRate_span_event:
  "SampleRate (span_event p e sd) =
     (if f64_ne (SampleFraction e) (Fin 0)
      then uint_of_float64 (uint_impl p) (f64_div (Fin 1) (SampleFraction e))
      else SampleRate_b (Builder e))"
  by (simp add: span_event_def Let_def NewEvent_def SampleRate_AddField SampleRate_AddFields)

lemma SampleRate_annotation_event:
  "SampleRate (annotation_event p e sd a) =
     (if f64_ne (SampleFraction e) (Fin 0)
      then uint_of_float64 (uint_impl p) (f64_div (Fin 1) (SampleFraction e))
      else SampleRate_b (Builder e))"
  by (simp add: annotation_event_def Let_def NewEvent_def SampleRate_AddField SampleRate_AddFields)

lemma f64_eq_zero_iff: "f64_eq x (Fin 0) \<longleftrightarrow> x = Fin 0 \<or> x = NegZero"
  by (cases x) auto

lemma span_event_no_conversion:
  assumes "f64_eq (SampleFraction e) (Fin 0)"
  shows "span_event (p\<lparr>uint_impl := c\<rparr>) e sd = span_event p e sd"
  using assms by (simp add: span_event_def f64_ne_def)

lemma annotation_event_no_conversion:
  assumes "f64_eq (SampleFraction e) (Fin 0)"
  shows "annotation_event (p\<lparr>uint_impl := c\<rparr>) e sd a = annotation_event p e sd a"
  using assms by (simp add: annotation_event_def f64_ne_def)

lemma f64_div_one:
  assumes "r \<noteq> 0"
  shows "f64_div (Fin 1) (Fin r) = round_f64 (1 / r)"
  using assms by (simp add: f64_div_def)







section \<open>The claims\<close>

lemmas ex_defs =
  NewExporter_def ex_platform_def ex_builder_def ex_exporter_def ex_annotation_def ex_span_def

text \<open>
  Claim C1, as amended. With a sample fraction \<open>r\<close> other than 0, \<open>ExportSpan\<close> and
  \<open>exportAnnotation\<close> set the sample rate of the event to the float64 quotient \<open>1 / r\<close>
  with its fraction discarded, not rounded, whenever that quotient \<open>q\<close> is a \<open>uint\<close>
  (\<open>- 1 < q < 2 ^ 64\<close>). For a fraction in the range of the contract,
  \<open>2 ^ - 63 < r \<le> 1\<close>, the quotient is between 1 and \<open>2 ^ 63\<close> and within
  \<open>2 ^ - 53\<close> of \<open>1 / r\<close>.
\<close>

theorem C1_sample_rate_truncated:
  assumes "SampleFraction e = Fin r" and "r \<noteq> 0"
  shows "(\<forall>q. round_f64 (1 / r) = Fin q \<and> - 1 < q \<and> q < 2 ^ 64 \<longrightarrow>
            SampleRate (span_event p e sd) = word_of_int (trunc q)
          \<and> SampleRate (annotation_event p e sd a) = word_of_int (trunc q))
       \<and> (1 / 2 ^ 63 < r \<and> r \<le> 1 \<longrightarrow>
            (\<exists>q. round_f64 (1 / r) = Fin q \<and> 1 \<le> q \<and> q \<le> 2 ^ 63
                \<and> \<bar>q - 1 / r\<bar> \<le> (1 / r) / 2 ^ 53))"
proof (intro conjI allI impI)
  fix q
  assume q: "round_f64 (1 / r) = Fin q \<and> - 1 < q \<and> q < 2 ^ 64"
  have ne: "f64_ne (SampleFraction e) (Fin 0)" using assms by (simp add: f64_ne_def)
  have "uint_of_float64 (uint_impl p) (f64_div (Fin 1) (SampleFraction e)) = word_of_int (trunc q)"
    using q assms by (simp add: f64_div_one uint_of_float64_def)
  then show "SampleRate (span_event p e sd) = word_of_int (trunc q)"
    and "SampleRate (annotation_event p e sd a) = word_of_int (trunc q)"
    using ne by (simp_all add: SampleRate_span_event SampleRate_annotation_event)
next
  assume r: "1 / 2 ^ 63 < r \<and> r \<le> 1"
  have "(0::rat) < 1 / 2 ^ 63" by simp
  then have rpos: "0 < r" using r by linarith
  define s where "s = 1 / r"
  have spos: "0 < s" using rpos by (simp add: s_def)
  have s1: "2 powi 0 \<le> \<bar>s\<bar>" using r rpos by (simp add: s_def)
  have "s < 2 ^ 63" using r rpos by (simp add: s_def field_simps)
  then have s63: "\<bar>s\<bar> < 2 powi 63" using spos by simp
  obtain v where v: "round_f64 s = Fin (if s < 0 then - v else v)"
    and vlo: "2 powi 0 \<le> v" and vhi: "v \<le> 2 powi 63" and verr: "\<bar>v - \<bar>s\<bar>\<bar> \<le> \<bar>s\<bar> / 2 ^ 53"
    using round_f64_rel[of s 0 63] spos s1 s63 by auto
  have "round_f64 (1 / r) = Fin v \<and> 1 \<le> v \<and> v \<le> 2 ^ 63 \<and> \<bar>v - 1 / r\<bar> \<le> (1 / r) / 2 ^ 53"
    using v vlo vhi verr spos by (simp add: s_def)
  then show "\<exists>q. round_f64 (1 / r) = Fin q \<and> 1 \<le> q \<and> q \<le> 2 ^ 63
                \<and> \<bar>q - 1 / r\<bar> \<le> (1 / r) / 2 ^ 53" by blast
qed

theorem C1_witness:
  "SampleFraction (ex_exporter\<lparr>SampleFraction := Fin (1 / 4)\<rparr>) = Fin (1 / 4)
   \<and> (1 / 2 ^ 63 :: rat) < 1 / 4 \<and> (1 / 4 :: rat) \<le> 1
   \<and> round_f64 (1 / (1 / 4)) = Fin 4
   \<and> SampleRate (span_event ex_platform (ex_exporter\<lparr>SampleFraction := Fin (1 / 4)\<rparr>) ex_span) = 4
   \<and> SampleRate (annotation_event ex_platform (ex_exporter\<lparr>SampleFraction := Fin (1 / 4)\<rparr>)
        ex_span ex_annotation) = 4"
  using C1_sample_rate_truncated [where e = "ex_exporter\<lparr>SampleFraction := Fin (1 / 4)\<rparr>"
      and r = "1 / 4" and p = ex_platform and sd = ex_span and a = ex_annotation]
    round_f64_4
  by (simp add: trunc_def)

text \<open>
  Claim C1 as stated fails: with the sample fraction 0.625 the quotient is 1.6, which
  rounds to 2, and the sample rate of the event is 1.
\<close>

theorem C1_counterexample:
  "SampleFraction (ex_exporter\<lparr>SampleFraction := Fin (5 / 8)\<rparr>) = Fin (5 / 8)
   \<and> is_float64 (Fin (5 / 8))
   \<and> SampleRate (span_event ex_platform (ex_exporter\<lparr>SampleFraction := Fin (5 / 8)\<rparr>) ex_span) = 1
   \<and> (word_of_int (round (1 / (5 / 8 :: rat))) :: 64 word) = 2"
proof -
  have "\<lfloor>3602879701896397 / 2251799813685248 :: rat\<rfloor> = 1" by (simp add: floor_eq_iff)
  then have "SampleRate (span_event ex_platform (ex_exporter\<lparr>SampleFraction := Fin (5 / 8)\<rparr>) ex_span) = 1"
    by (simp add: SampleRate_span_event f64_ne_def f64_div_def round_f64_8_5 uint_of_float64_def
        trunc_def)
  moreover have "round (1 / (5 / 8 :: rat)) = 2" by (simp add: round_def floor_eq_iff)
  ultimately show ?thesis by (simp add: round_f64_5_8)
qed

text \<open>
  Claim C2. With a sample fraction equal to 0 (either zero), the span event and the
  annotation events keep the sample rate that the builder gave them, the conversion of
  \<open>1 / SampleFraction\<close> is not evaluated (the events do not depend on what it would
  give), and \<open>ExportSpan\<close> hands over the span event and one event for each annotation.
\<close>

theorem C2_zero_fraction:
  assumes "f64_eq (SampleFraction e) (Fin 0)"
  shows "SampleRate (span_event p e sd) = SampleRate_b (Builder e)
       \<and> SampleRate (annotation_event p e sd a) = SampleRate_b (Builder e)
       \<and> span_event (p\<lparr>uint_impl := c\<rparr>) e sd = span_event p e sd
       \<and> annotation_event (p\<lparr>uint_impl := c\<rparr>) e sd a = annotation_event p e sd a
       \<and> ExportSpan p e sd sent =
           sent @ span_event p e sd # map (annotation_event p e sd) (Annotations sd)"
  using assms
  by (simp add: SampleRate_span_event SampleRate_annotation_event f64_ne_def
      span_event_no_conversion annotation_event_no_conversion ExportSpan_eq)

theorem C2_witness:
  "f64_eq (SampleFraction (ex_exporter\<lparr>SampleFraction := Fin 0\<rparr>)) (Fin 0)
   \<and> SampleRate (span_event ex_platform (ex_exporter\<lparr>SampleFraction := Fin 0\<rparr>) ex_span) = 1
   \<and> SampleRate (annotation_event ex_platform (ex_exporter\<lparr>SampleFraction := Fin 0\<rparr>) ex_span
        ex_annotation) = 1
   \<and> length (ExportSpan ex_platform (ex_exporter\<lparr>SampleFraction := Fin 0\<rparr>) ex_span []) = 2"
  using C2_zero_fraction [where e = "ex_exporter\<lparr>SampleFraction := Fin 0\<rparr>" and p = ex_platform
      and sd = ex_span and a = ex_annotation and sent = "[]" and c = "\<lambda>x. 0"]
  by (simp add: ex_defs)




text \<open>
  Claim C4, as amended. \<open>ExportSpan\<close> hands over the span event and then exactly one event
  for each annotation of the span, in their order. The event of an annotation whose
  attributes use none of the keys \<open>trace.annotation\<close>, \<open>name\<close>, \<open>trace.trace_id\<close> and
  \<open>trace.parent_id\<close> has \<open>trace.annotation\<close> true, the annotation's message as \<open>name\<close>, the
  span's trace id as \<open>trace.trace_id\<close> and the span's id as \<open>trace.parent_id\<close>.
\<close>

theorem C4_count_and_fields:
  assumes "\<not> uses_key ''trace.annotation'' (Attributes_an a)"
    and "\<not> uses_key ''name'' (Attributes_an a)"
    and "\<not> uses_key ''trace.trace_id'' (Attributes_an a)"
    and "\<not> uses_key ''trace.parent_id'' (Attributes_an a)"
  shows "ExportSpan p e sd sent =
           sent @ span_event p e sd # map (annotation_event p e sd) (Annotations sd)
       \<and> data (annotation_event p e sd a) ''trace.annotation'' = Some (BoolV True)
       \<and> data (annotation_event p e sd a) ''name'' = Some (StringV (Message_an a))
       \<and> data (annotation_event p e sd a) ''trace.trace_id'' =
            Some (StringV (TraceID_String (TraceID_sd sd)))
       \<and> data (annotation_event p e sd a) ''trace.parent_id'' =
            Some (StringV (SpanID_String (SpanID_sd sd)))"
  using assms by (simp add: ExportSpan_eq data_annotation_event map_add_rev_other)

theorem C4_witness:
  "\<not> uses_key ''trace.annotation'' (Attributes_an ex_annotation)
   \<and> \<not> uses_key ''name'' (Attributes_an ex_annotation)
   \<and> \<not> uses_key ''trace.trace_id'' (Attributes_an ex_annotation)
   \<and> \<not> uses_key ''trace.parent_id'' (Attributes_an ex_annotation)
   \<and> ExportSpan ex_platform ex_exporter ex_span [] =
        [span_event ex_platform ex_exporter ex_span,
         annotation_event ex_platform ex_exporter ex_span ex_annotation]
   \<and> data (annotation_event ex_platform ex_exporter ex_span ex_annotation) ''trace.annotation'' =
        Some (BoolV True)
   \<and> data (annotation_event ex_platform ex_exporter ex_span ex_annotation) ''name'' =
        Some (StringV ''cache miss'')
   \<and> data (annotation_event ex_platform ex_exporter ex_span ex_annotation) ''trace.trace_id'' =
        Some (StringV ''0102030405060708090a0b0c0d0e0f10'')
   \<and> data (annotation_event ex_platform ex_exporter ex_span ex_annotation) ''trace.parent_id'' =
        Some (StringV ''0000000000000001'')"
  using C4_count_and_fields [where a = ex_annotation and p = ex_platform and e = ex_exporter
      and sd = ex_span and sent = "[]"]
  by (simp add: ex_defs uses_key_def hex_byte_def hex_digit_def)

text \<open>
  Claim C4 as stated fails: the attributes of an annotation are added last, so an
  attribute called \<open>name\<close> replaces the message, and one called \<open>trace.annotation\<close>
  replaces the mark.
\<close>

theorem C4_counterexample:
  "Message_an (ex_annotation\<lparr>Attributes_an :=
       [(''name'', StringV ''lookup''), (''trace.annotation'', BoolV False)]\<rparr>) = ''cache miss''
   \<and> is_map (Attributes_an (ex_annotation\<lparr>Attributes_an :=
       [(''name'', StringV ''lookup''), (''trace.annotation'', BoolV False)]\<rparr>))
   \<and> map (\<lambda>ev. (data ev ''name'', data ev ''trace.annotation''))
        (ExportSpan ex_platform ex_exporter
          (ex_span\<lparr>Annotations := [ex_annotation\<lparr>Attributes_an :=
             [(''name'', StringV ''lookup''), (''trace.annotation'', BoolV False)]\<rparr>]\<rparr>) [])
     = [(Some (StringV ''GET /''), None), (Some (StringV ''lookup''), Some (BoolV False))]"
  by (simp add: ExportSpan_eq data_annotation_event data_span_event with_status_other
      span_static_def Span_fields_def struct_field_def honeycombSpan_def Let_def
      ex_defs is_map_def)

text \<open>
  Claim C5, as amended. When neither the builder nor the attributes of the span use the key
  \<open>trace.parent_id\<close>, the span event has the field \<open>trace.parent_id\<close> if and only if
  \<open>ParentSpanID\<close> is not the zero id, and the field is then the string form of
  \<open>ParentSpanID\<close>.
\<close>

theorem C5_parent_id:
  assumes "data_b (Builder e) ''trace.parent_id'' = None"
    and "\<not> uses_key ''trace.parent_id'' (Attributes_sd sd)"
  shows "(data (span_event p e sd) ''trace.parent_id'' \<noteq> None \<longleftrightarrow> ParentSpanID sd \<noteq> zero_SpanID)
       \<and> (ParentSpanID sd \<noteq> zero_SpanID \<longrightarrow>
            data (span_event p e sd) ''trace.parent_id'' = Some (StringV (SpanID_String (ParentSpanID sd))))"
  using assms by (simp add: data_span_event with_status_other map_add_rev_other span_static_parent)

theorem C5_witness:
  "data_b (Builder ex_exporter) ''trace.parent_id'' = None
   \<and> \<not> uses_key ''trace.parent_id'' (Attributes_sd ex_span)
   \<and> ParentSpanID ex_span \<noteq> zero_SpanID
   \<and> data (span_event ex_platform ex_exporter ex_span) ''trace.parent_id'' =
        Some (StringV ''0000000000000002'')
   \<and> data_b (Builder ex_exporter) ''trace.parent_id'' = None
   \<and> \<not> uses_key ''trace.parent_id'' (Attributes_sd (ex_span\<lparr>ParentSpanID := zero_SpanID\<rparr>))
   \<and> data (span_event ex_platform ex_exporter (ex_span\<lparr>ParentSpanID := zero_SpanID\<rparr>))
        ''trace.parent_id'' = None"
  using C5_parent_id [where e = ex_exporter and sd = ex_span and p = ex_platform]
    C5_parent_id [where e = ex_exporter and sd = "ex_span\<lparr>ParentSpanID := zero_SpanID\<rparr>" and p = ex_platform]
  by (simp add: ex_defs uses_key_def zero_SpanID_def hex_byte_def hex_digit_def)

text \<open>
  Claim C5 as stated fails: a span with no parent and an attribute called
  \<open>trace.parent_id\<close> gives an event with that field.
\<close>

theorem C5_counterexample:
  "ParentSpanID (ex_span\<lparr>ParentSpanID := zero_SpanID,
       Attributes_sd := [(''trace.parent_id'', StringV ''abc'')]\<rparr>) = zero_SpanID
   \<and> data (span_event ex_platform ex_exporter (ex_span\<lparr>ParentSpanID := zero_SpanID,
       Attributes_sd := [(''trace.parent_id'', StringV ''abc'')]\<rparr>)) ''trace.parent_id''
     = Some (StringV ''abc'')"
  by (simp add: data_span_event with_status_other ex_defs)

text \<open>
  Claim C6, as amended. A status code other than 0 is the field \<open>status_code\<close> of the span
  event, and a status message that is not empty is its field \<open>status_description\<close>. When
  neither the builder nor the attributes of the span use the key, the field is there if and
  only if the status has the code, or the message.
\<close>

theorem C6_status_fields:
  "(Code (Status sd) \<noteq> 0 \<longrightarrow>
      data (span_event p e sd) ''status_code'' = Some (Int32V (Code (Status sd))))
   \<and> (Message (Status sd) \<noteq> [] \<longrightarrow>
      data (span_event p e sd) ''status_description'' = Some (StringV (Message (Status sd))))
   \<and> (data_b (Builder e) ''status_code'' = None \<and> \<not> uses_key ''status_code'' (Attributes_sd sd) \<longrightarrow>
      (data (span_event p e sd) ''status_code'' \<noteq> None \<longleftrightarrow> Code (Status sd) \<noteq> 0))
   \<and> (data_b (Builder e) ''status_description'' = None
        \<and> \<not> uses_key ''status_description'' (Attributes_sd sd) \<longrightarrow>
      (data (span_event p e sd) ''status_description'' \<noteq> None \<longleftrightarrow> Message (Status sd) \<noteq> []))"
  by (simp add: data_span_event with_status_code with_status_description map_add_rev_other
      span_static_status)

theorem C6_witness:
  "Code (Status ex_span) \<noteq> 0
   \<and> data (span_event ex_platform ex_exporter ex_span) ''status_code'' = Some (Int32V 2)
   \<and> Message (Status ex_span) \<noteq> []
   \<and> data (span_event ex_platform ex_exporter ex_span) ''status_description'' =
        Some (StringV ''unknown'')
   \<and> data_b (Builder ex_exporter) ''status_code'' = None
   \<and> \<not> uses_key ''status_code'' (Attributes_sd (ex_span\<lparr>Status := \<lparr>Code = 0, Message = []\<rparr>\<rparr>))
   \<and> data (span_event ex_platform ex_exporter (ex_span\<lparr>Status := \<lparr>Code = 0, Message = []\<rparr>\<rparr>))
        ''status_code'' = None
   \<and> data_b (Builder ex_exporter) ''status_description'' = None
   \<and> \<not> uses_key ''status_description''
        (Attributes_sd (ex_span\<lparr>Status := \<lparr>Code = 0, Message = []\<rparr>\<rparr>))
   \<and> data (span_event ex_platform ex_exporter (ex_span\<lparr>Status := \<lparr>Code = 0, Message = []\<rparr>\<rparr>))
        ''status_description'' = None"
  using C6_status_fields [where e = ex_exporter and sd = ex_span and p = ex_platform]
    C6_status_fields [where e = ex_exporter and sd = "ex_span\<lparr>Status := \<lparr>Code = 0, Message = []\<rparr>\<rparr>"
      and p = ex_platform]
  by (simp add: ex_defs uses_key_def)

text \<open>
  Claim C6 as stated fails: with the status code 0, an attribute called \<open>status_code\<close>
  is the field \<open>status_code\<close> of the event.
\<close>

theorem C6_counterexample:
  "Code (Status (ex_span\<lparr>Status := \<lparr>Code = 0, Message = []\<rparr>,
       Attributes_sd := [(''status_code'', Int64V 404)]\<rparr>)) = 0
   \<and> data (span_event ex_platform ex_exporter (ex_span\<lparr>Status := \<lparr>Code = 0, Message = []\<rparr>,
       Attributes_sd := [(''status_code'', Int64V 404)]\<rparr>)) ''status_code''
     = Some (Int64V 404)"
  by (simp add: data_span_event with_status_code ex_defs)




text \<open>
  Claim C8, as amended. Every entry of the attributes of an annotation is a field of the
  annotation event, with its key and its value. Every entry of the attributes of a span is
  a field of the span event, unless its key is \<open>status_code\<close> and the status code is not
  0, or its key is \<open>status_description\<close> and the status message is not empty.
\<close>

theorem C8_attributes:
  "(is_map (Attributes_an a) \<and> (k, v) \<in> set (Attributes_an a) \<longrightarrow>
      data (annotation_event p e sd a) k = Some v)
   \<and> (is_map (Attributes_sd sd) \<and> (k, v) \<in> set (Attributes_sd sd)
        \<and> (k = ''status_code'' \<longrightarrow> Code (Status sd) = 0)
        \<and> (k = ''status_description'' \<longrightarrow> Message (Status sd) = []) \<longrightarrow>
      data (span_event p e sd) k = Some v)"
proof (intro conjI impI)
  assume "is_map (Attributes_an a) \<and> (k, v) \<in> set (Attributes_an a)"
  then show "data (annotation_event p e sd a) k = Some v"
    by (simp add: data_annotation_event map_add_rev_member)
next
  assume h: "is_map (Attributes_sd sd) \<and> (k, v) \<in> set (Attributes_sd sd)
        \<and> (k = ''status_code'' \<longrightarrow> Code (Status sd) = 0)
        \<and> (k = ''status_description'' \<longrightarrow> Message (Status sd) = [])"
  then have m: "(span_static e sd ++ map_of (rev (Attributes_sd sd))) k = Some v"
    by (simp add: map_add_rev_member)
  have "with_status sd (span_static e sd ++ map_of (rev (Attributes_sd sd))) k =
          (span_static e sd ++ map_of (rev (Attributes_sd sd))) k"
    using h by (rule_tac with_status_keep) simp_all
  then show "data (span_event p e sd) k = Some v"
    using m by (simp add: data_span_event)
qed

theorem C8_witness:
  "is_map (Attributes_an ex_annotation) \<and> (''key'', StringV ''user:42'') \<in> set (Attributes_an ex_annotation)
   \<and> data (annotation_event ex_platform ex_exporter ex_span ex_annotation) ''key'' =
        Some (StringV ''user:42'')
   \<and> is_map (Attributes_sd ex_span) \<and> (''http.status'', Int64V 200) \<in> set (Attributes_sd ex_span)
   \<and> data (span_event ex_platform ex_exporter ex_span) ''http.status'' = Some (Int64V 200)"
  using C8_attributes [where a = ex_annotation and k = "''key''" and v = "StringV ''user:42''"
      and p = ex_platform and e = ex_exporter and sd = ex_span]
    C8_attributes [where a = ex_annotation and k = "''http.status''" and v = "Int64V 200"
      and p = ex_platform and e = ex_exporter and sd = ex_span]
  by (simp add: ex_defs is_map_def)

text \<open>
  Claim C8 as stated fails: the status fields are added after the attributes, so the status
  code replaces the value of an attribute called \<open>status_code\<close>.
\<close>

theorem C8_counterexample:
  "is_map (Attributes_sd (ex_span\<lparr>Attributes_sd := [(''status_code'', StringV ''late'')]\<rparr>))
   \<and> (''status_code'', StringV ''late'')
        \<in> set (Attributes_sd (ex_span\<lparr>Attributes_sd := [(''status_code'', StringV ''late'')]\<rparr>))
   \<and> data (span_event ex_platform ex_exporter
        (ex_span\<lparr>Attributes_sd := [(''status_code'', StringV ''late'')]\<rparr>)) ''status_code''
     = Some (Int32V 2)"
  by (simp add: data_span_event with_status_code ex_defs is_map_def)

text \<open>
  Claim C9 does not hold of the code. The field \<open>Timestamp\<close> of \<open>Span\<close> is tagged
  \<open>omitempty\<close>, but a \<open>time.Time\<close> is a struct and never counts as empty: the span event of
  a span whose \<open>StartTime\<close> is zero still has the field \<open>timestamp\<close>, holding the zero time.
\<close>

theorem C9_zero_timestamp_kept:
  "StartTime (ex_span\<lparr>StartTime := 0\<rparr>) = 0
   \<and> data (span_event ex_platform ex_exporter (ex_span\<lparr>StartTime := 0\<rparr>)) ''timestamp''
     = Some (TimeV 0)"
  by (simp add: data_span_event with_status_other span_static_timestamp ex_defs uses_key_def
      map_add_rev_other)



end
